theory Spec2Isabelle
  imports Main "HOL-Library.Word"
begin

unbundle bit_operations_syntax

section \<open>The parse context (byte reader) of parse\_evtx.cpp\<close>

text \<open>
  Bytes are \<open>8 word\<close>, the fixed-width fields of the wire format are words of their
  width. Values of type \<open>size_t\<close> (offsets, lengths, counts) are natural numbers: the
  windows are at most one 65536-byte chunk long, skips are sums of 16-bit and 32-bit
  wire fields, so no \<open>size_t\<close> sum of the decoder reaches \<open>2^64\<close>.

  A buffer pointer is the list of the bytes from the pointer onwards, so
  \<open>data + offset\<close> is \<open>drop offset data\<close>.

  \<open>chunkContext\<close> is a pointer to another parse context. The pointee is never written
  while a context pointing to it is used, and only its \<open>data\<close> and \<open>dataLen\<close> are read
  through the pointer (in \<open>ReadName\<close>), so the pointer is modelled by the pointee's
  window.
\<close>

type_synonym byte = "8 word"

datatype XmlParseState = StateNormal | StateInAttribute

record Window =
  w_data :: "byte list"
  w_dataLen :: nat

record ParseContext =
  chunkContext :: Window
  data :: "byte list"
  dataLen :: nat
  offset :: nat
  offsetFromChunkStart :: nat
  state :: XmlParseState
  currentTemplatePtr :: "32 word option"
  cachedValue :: "byte list"

text \<open>The window of a context: what a pointer to the context gives access to.\<close>

definition window_of :: "ParseContext \<Rightarrow> Window" where
  "window_of c = \<lparr> w_data = data c, w_dataLen = dataLen c \<rparr>"

definition HaveEnoughData :: "ParseContext \<Rightarrow> nat \<Rightarrow> bool" where
  "HaveEnoughData c numBytes = (offset c + numBytes \<le> dataLen c)"

definition SkipBytes :: "nat \<Rightarrow> ParseContext \<Rightarrow> ParseContext" where
  "SkipBytes numBytes c = c\<lparr> offset := offset c + numBytes \<rparr>"

text \<open>
  \<open>ReadData\<close> for an element type of \<open>sz\<close> bytes. The loop copies \<open>count\<close> elements,
  each the \<open>sz\<close> bytes at \<open>data + offset\<close>, and advances the offset after each one.
  An element is returned as its bytes in memory order; \<open>le_nat\<close> gives the number
  they hold on a little-endian machine.
\<close>

primrec ReadData_loop :: "nat \<Rightarrow> nat \<Rightarrow> ParseContext \<Rightarrow> byte list list \<times> ParseContext" where
  "ReadData_loop sz 0 c = ([], c)"
| "ReadData_loop sz (Suc k) c =
     (let v = take sz (drop (offset c) (data c));
          c1 = c\<lparr> offset := offset c + sz \<rparr>;
          (vs, c2) = ReadData_loop sz k c1
      in (v # vs, c2))"

definition ReadData :: "nat \<Rightarrow> nat \<Rightarrow> ParseContext \<Rightarrow> bool \<times> byte list list \<times> ParseContext" where
  "ReadData sz count c =
     (if \<not> HaveEnoughData c (sz * count) then (False, [], c)
      else (let (vs, c1) = ReadData_loop sz count c in (True, vs, c1)))"

primrec le_nat :: "byte list \<Rightarrow> nat" where
  "le_nat [] = 0"
| "le_nat (b # bs) = unat b + 256 * le_nat bs"

text \<open>The reads of one value (\<open>count = 1\<close>) of each width the decoder uses.\<close>

definition ReadU8 :: "ParseContext \<Rightarrow> (8 word \<times> ParseContext) option" where
  "ReadU8 c = (case ReadData 1 1 c of
       (True, vs, c1) \<Rightarrow> Some (of_nat (le_nat (concat vs)), c1)
     | (False, _, _) \<Rightarrow> None)"

definition ReadU16 :: "ParseContext \<Rightarrow> (16 word \<times> ParseContext) option" where
  "ReadU16 c = (case ReadData 2 1 c of
       (True, vs, c1) \<Rightarrow> Some (of_nat (le_nat (concat vs)), c1)
     | (False, _, _) \<Rightarrow> None)"

definition ReadU32 :: "ParseContext \<Rightarrow> (32 word \<times> ParseContext) option" where
  "ReadU32 c = (case ReadData 4 1 c of
       (True, vs, c1) \<Rightarrow> Some (of_nat (le_nat (concat vs)), c1)
     | (False, _, _) \<Rightarrow> None)"

definition ReadU64 :: "ParseContext \<Rightarrow> (64 word \<times> ParseContext) option" where
  "ReadU64 c = (case ReadData 8 1 c of
       (True, vs, c1) \<Rightarrow> Some (of_nat (le_nat (concat vs)), c1)
     | (False, _, _) \<Rightarrow> None)"

text \<open>
  \<open>InheritWithOffset\<close> fills the receiving context \<open>self\<close> from \<open>other\<close>. It does not
  write \<open>state\<close> and \<open>currentTemplatePtr\<close>.
\<close>

definition InheritWithOffset :: "ParseContext \<Rightarrow> ParseContext \<Rightarrow> nat \<Rightarrow> ParseContext" where
  "InheritWithOffset self other wantedLen =
     self\<lparr> data := drop (offset other) (data other),
           dataLen := (if offset other + wantedLen > dataLen other
                       then (if offset other \<ge> dataLen other then 0
                             else dataLen other - offset other)
                       else wantedLen),
           offset := 0,
           chunkContext := window_of other,
           offsetFromChunkStart := offset other + offsetFromChunkStart other,
           cachedValue := [] \<rparr>"

definition UpdateLen :: "nat \<Rightarrow> ParseContext \<Rightarrow> ParseContext" where
  "UpdateLen wantedLen c = (if wantedLen \<le> dataLen c then c\<lparr> dataLen := wantedLen \<rparr> else c)"

text \<open>
  The context \<open>ParseBinXmlPre\<close> builds for a record: the window is the whole chunk, the
  offset is the start of the record's BinXml, the chunk context is the context itself.
  \<open>ParseBinXmlPre\<close> leaves \<open>state\<close> unset; \<open>ParseBinXml\<close> sets it to \<open>StateNormal\<close>
  before anything reads it.
\<close>

definition PreContext :: "byte list \<Rightarrow> nat \<Rightarrow> nat \<Rightarrow> ParseContext" where
  "PreContext d len inChunkOffset =
     \<lparr> chunkContext = \<lparr> w_data = d, w_dataLen = len \<rparr>,
       data = d, dataLen = len, offset = inChunkOffset, offsetFromChunkStart = 0,
       state = StateNormal, currentTemplatePtr = None, cachedValue = [] \<rparr>"

section \<open>The name stack\<close>

text \<open>
  \<open>NameStack\<close>: a vector of 20 elements of 256 characters each and the index of the
  top element, a signed integer that is \<open>-1\<close> (\<open>INVALID_STACK_DEPTH\<close>) for the empty stack.
  A C string is the list of its characters before the terminating zero, so
  \<open>strncpy\<close> into 256 bytes followed by a zero at index 255 keeps the first 255.
\<close>

record NameStack =
  names :: "byte list list"
  nameStackPtr :: int

definition MAX_NAME_STACK_DEPTH :: int where
  "MAX_NAME_STACK_DEPTH = 20"

definition INVALID_STACK_DEPTH :: int where
  "INVALID_STACK_DEPTH = - 1"

definition NameStack_new :: NameStack where
  "NameStack_new = \<lparr> names = replicate 20 [], nameStackPtr = INVALID_STACK_DEPTH \<rparr>"

definition NameStack_Reset :: "NameStack \<Rightarrow> NameStack" where
  "NameStack_Reset ns = ns\<lparr> nameStackPtr := INVALID_STACK_DEPTH \<rparr>"

definition PushName :: "byte list \<Rightarrow> NameStack \<Rightarrow> NameStack" where
  "PushName name ns =
     (if nameStackPtr ns + 1 \<ge> MAX_NAME_STACK_DEPTH then ns
      else (let p = nameStackPtr ns + 1
            in ns\<lparr> nameStackPtr := p, names := (names ns)[nat p := take 255 name] \<rparr>))"

definition PopName :: "NameStack \<Rightarrow> NameStack" where
  "PopName ns =
     (if nameStackPtr ns > INVALID_STACK_DEPTH then ns\<lparr> nameStackPtr := nameStackPtr ns - 1 \<rparr>
      else ns)"

definition GetName :: "NameStack \<Rightarrow> byte list option" where
  "GetName ns =
     (if nameStackPtr ns \<le> INVALID_STACK_DEPTH \<or> nameStackPtr ns \<ge> MAX_NAME_STACK_DEPTH then None
      else Some (names ns ! nat (nameStackPtr ns)))"

definition GetUpperName :: "NameStack \<Rightarrow> byte list option" where
  "GetUpperName ns =
     (if nameStackPtr ns \<le> INVALID_STACK_DEPTH \<or> nameStackPtr ns \<ge> MAX_NAME_STACK_DEPTH then None
      else if nameStackPtr ns < 1 then None
      else Some (names ns ! nat (nameStackPtr ns - 1)))"

text \<open>
  The public operations of the class as a datatype, to speak of sequences of them.
  The two reads are \<open>const\<close> member functions: they leave the stack as it is.
\<close>

datatype NameStackOp = OpPush "byte list" | OpPop | OpReset | OpGetName | OpGetUpperName

fun NameStack_apply :: "NameStack \<Rightarrow> NameStackOp \<Rightarrow> NameStack" where
  "NameStack_apply ns (OpPush name) = PushName name ns"
| "NameStack_apply ns OpPop = PopName ns"
| "NameStack_apply ns OpReset = NameStack_Reset ns"
| "NameStack_apply ns OpGetName = ns"
| "NameStack_apply ns OpGetUpperName = ns"

definition NameStack_run :: "NameStackOp list \<Rightarrow> NameStack" where
  "NameStack_run ops = foldl NameStack_apply NameStack_new ops"

text \<open>The depth of the stack: the number of names on it.\<close>

definition depth :: "NameStack \<Rightarrow> int" where
  "depth ns = nameStackPtr ns + 1"

section \<open>UTF-16 to UTF-8\<close>

text \<open>
  \<open>UTF16ToUTF8\<close> takes the unit \<open>w\<close>, the buffer, \<open>*bufferUsed\<close> and \<open>bufferSize\<close> and
  returns the buffer and \<open>*bufferUsed\<close> as it leaves them. The parameter \<open>w\<close> is a
  \<open>uint16_t\<close>; the tests compare its value. A store into the \<open>char\<close> buffer keeps the
  low 8 bits. The loop runs \<open>charIndex\<close> from \<open>charLength - 1\<close> down to 1.
\<close>

fun UTF16ToUTF8_loop :: "nat \<Rightarrow> 16 word \<Rightarrow> byte list \<Rightarrow> nat \<Rightarrow> byte list \<times> 16 word" where
  "UTF16ToUTF8_loop 0 w buffer bufferUsed = (buffer, w)"
| "UTF16ToUTF8_loop (Suc k) w buffer bufferUsed =
     UTF16ToUTF8_loop k (drop_bit 6 w)
       (buffer[bufferUsed + Suc k := ucast (0x80 OR (w AND 0x3F))]) bufferUsed"

definition UTF16ToUTF8 :: "16 word \<Rightarrow> byte list \<Rightarrow> nat \<Rightarrow> nat \<Rightarrow> byte list \<times> nat" where
  "UTF16ToUTF8 w buffer bufferUsed bufferSize =
     (let (charLength, msb, mask) = (1 :: nat, 0 :: byte, 0 :: byte);
          (charLength, msb, mask) =
             (if unat w > 0x7F then (charLength + 1, msb OR (0x80 + 0x40), 0xFF)
              else (charLength, msb, mask));
          (charLength, msb, mask) =
             (if unat w > 0x7FF then (charLength + 1, msb OR 0x20, 0x1F)
              else (charLength, msb, mask));
          (charLength, msb, mask) =
             (if unat w > 0xFFFF then (charLength + 1, msb OR 0x10, 0x0F)
              else (charLength, msb, mask))
      in if bufferUsed + charLength \<ge> bufferSize then (buffer, bufferUsed)
         else if charLength = 1 then (buffer[bufferUsed := ucast w], bufferUsed + 1)
         else (let (buffer1, w1) = UTF16ToUTF8_loop (charLength - 1) w buffer bufferUsed
               in (buffer1[bufferUsed := ucast (ucast msb OR (w1 AND ucast mask))],
                   bufferUsed + charLength)))"

section \<open>Strings, templates and the global state\<close>

text \<open>
  A \<open>char\<close> buffer is a list of bytes; the C string it holds is the bytes before the
  first zero. A string literal of the source is the list of its characters' codes.
\<close>

definition c_str :: "byte list \<Rightarrow> byte list" where
  "c_str buf = takeWhile (\<lambda>b. b \<noteq> 0) buf"

definition lit :: "string \<Rightarrow> byte list" where
  "lit s = map of_char s"

text \<open>\<open>a - b\<close> in \<open>size_t\<close>, where the source subtracts without a guard.\<close>

definition size_t_sub :: "nat \<Rightarrow> nat \<Rightarrow> nat" where
  "size_t_sub a b = (if b \<le> a then a - b else 2 ^ 64 + a - b)"

text \<open>
  A template description: the fixed pairs in insertion order and the argument pairs by
  substitution index. \<open>args.emplace\<close> does not replace an entry that exists.
\<close>

record TemplateDescription =
  shortID :: "32 word"
  fixed :: "(byte list \<times> byte list) list"
  args :: "16 word \<rightharpoonup> (byte list \<times> 16 word)"

definition TemplateDescription_new :: TemplateDescription where
  "TemplateDescription_new = \<lparr> shortID = 0, fixed = [], args = Map.empty \<rparr>"

definition RegisterFixedPair :: "byte list \<Rightarrow> byte list \<Rightarrow> TemplateDescription \<Rightarrow> TemplateDescription" where
  "RegisterFixedPair k v d = d\<lparr> fixed := fixed d @ [(k, v)] \<rparr>"

definition RegisterArgPair :: "byte list option \<Rightarrow> 16 word \<Rightarrow> 16 word \<Rightarrow> TemplateDescription \<Rightarrow> TemplateDescription" where
  "RegisterArgPair k ty argIdx d =
     (case args d argIdx of
        Some _ \<Rightarrow> d
      | None \<Rightarrow> d\<lparr> args := (args d)(argIdx \<mapsto> ((case k of Some s \<Rightarrow> s | None \<Rightarrow> []), ty)) \<rparr>)"

text \<open>
  What the program prints, one constructor for each \<open>printf\<close> of the decoder and the
  walker, with the values printed (not their formatting; the lookup of a description
  of an event id and of a logon type only adds text to the same \<open>printf\<close>).
\<close>

datatype Out =
    PrFixed "byte list" "byte list"
  | PrFailedArgs
  | PrString "byte list" "byte list"
  | PrU8 "byte list" "8 word"
  | PrU16 "byte list" "16 word"
  | PrU32 "byte list" "32 word"
  | PrU64 "byte list" "64 word"
  | PrKey "byte list"
  | PrHexByte "8 word"
  | PrEnd
  | PrGUID "byte list" "byte list"
  | PrHex32 "byte list" "32 word"
  | PrHex64 "byte list" "64 word"
  | PrFileTime "byte list" "64 word"
  | PrSidHead "byte list" "8 word" "64 word"
  | PrSidSub "32 word"
  | PrArrayOpen "byte list"
  | PrArrayItemEnd
  | PrArrayChars bool "byte list"
  | PrArrayClose bool
  | PrUnknown "byte list" "16 word" "16 word"
  | PrRecord "64 word" "64 word"
  | PrNewline
  | PrFailedOn

text \<open>
  The globals \<open>nameStack\<close> and \<open>ids\<close> (the map \<open>knownIDs\<close> of the class \<open>Templates\<close>),
  and standard output. A \<open>TemplateDescription*\<close> points into \<open>knownIDs\<close>, whose
  entries are not erased while a record is decoded: it is the key of the entry, and
  \<open>None\<close> is the null pointer.
\<close>

record Globals =
  nameStack :: NameStack
  ids :: "32 word \<rightharpoonup> TemplateDescription"
  out :: "Out list"

definition Globals_new :: Globals where
  "Globals_new = \<lparr> nameStack = NameStack_new, ids = Map.empty, out = [] \<rparr>"

definition emit :: "Out list \<Rightarrow> Globals \<Rightarrow> Globals" where
  "emit xs g = g\<lparr> out := out g @ xs \<rparr>"

definition IsKnownID :: "32 word \<Rightarrow> Globals \<Rightarrow> bool" where
  "IsKnownID i g = (ids g i \<noteq> None)"

definition RegisterID :: "32 word \<Rightarrow> Globals \<Rightarrow> Globals" where
  "RegisterID i g = g\<lparr> ids := (ids g)(i \<mapsto> TemplateDescription_new) \<rparr>"

definition ResetTemplates :: "Globals \<Rightarrow> Globals" where
  "ResetTemplates g = g\<lparr> ids := Map.empty \<rparr>"

text \<open>An update of the description a template pointer points to; nothing for null.\<close>

definition update_template :: "32 word option \<Rightarrow> (TemplateDescription \<Rightarrow> TemplateDescription) \<Rightarrow> Globals \<Rightarrow> Globals" where
  "update_template p f g =
     (case p of
        None \<Rightarrow> g
      | Some i \<Rightarrow> (case ids g i of None \<Rightarrow> g | Some d \<Rightarrow> g\<lparr> ids := (ids g)(i \<mapsto> f d) \<rparr>))"

definition SetState :: "XmlParseState \<Rightarrow> ParseContext \<Rightarrow> Globals \<Rightarrow> ParseContext \<times> Globals" where
  "SetState newState c g =
     (if newState = state c then (c, g)
      else (c\<lparr> state := newState \<rparr>,
            if state c = StateInAttribute then g\<lparr> nameStack := PopName (nameStack g) \<rparr> else g))"

section \<open>Length-prefixed strings and names\<close>

text \<open>
  The loop of \<open>ReadPrefixedUnicodeString\<close>, from the state at the loop head to the
  state at its exit; the first component is false when a read failed (the function
  returns false there).
\<close>

function ReadPrefixedUnicodeString_loop ::
  "nat \<Rightarrow> nat \<Rightarrow> nat \<Rightarrow> byte list \<Rightarrow> nat \<Rightarrow> ParseContext
   \<Rightarrow> bool \<times> nat \<times> byte list \<times> nat \<times> ParseContext" where
  "ReadPrefixedUnicodeString_loop nameCharCnt nameBufferSize idx nameBuffer nameBufferUsed c =
     (if idx < nameCharCnt \<and> idx * 2 < size_t_sub nameBufferSize 1 then
        (case ReadU16 c of
           None \<Rightarrow> (False, idx, nameBuffer, nameBufferUsed, c)
         | Some (w, c1) \<Rightarrow>
             (let (b1, u1) = UTF16ToUTF8 w nameBuffer nameBufferUsed nameBufferSize
              in ReadPrefixedUnicodeString_loop nameCharCnt nameBufferSize (idx + 1) b1 u1 c1))
      else (True, idx, nameBuffer, nameBufferUsed, c))"
  by pat_completeness auto
termination
  by (relation "measure (\<lambda>(cnt, sz, idx, b, u, c). cnt - idx)") auto

text \<open>
  \<open>ReadPrefixedUnicodeString\<close> returns its result, the buffer and the context as it
  leaves them. The buffer it is given is the caller's array as it stands.
\<close>

definition ReadPrefixedUnicodeString ::
  "ParseContext \<Rightarrow> byte list \<Rightarrow> nat \<Rightarrow> bool \<Rightarrow> bool \<times> byte list \<times> ParseContext" where
  "ReadPrefixedUnicodeString c nameBuffer nameBufferSize isNullTerminated =
     (case ReadU16 c of
        None \<Rightarrow> (False, nameBuffer, c)
      | Some (nameCharCnt, c1) \<Rightarrow>
          (case ReadPrefixedUnicodeString_loop (unat nameCharCnt) nameBufferSize 0 nameBuffer 0 c1 of
             (False, idx, b, u, c2) \<Rightarrow> (False, b, c2)
           | (True, idx, b, u, c2) \<Rightarrow>
               (let u1 = (if u \<ge> nameBufferSize then size_t_sub nameBufferSize 1 else u);
                    b1 = b[u1 := 0];
                    c3 = SkipBytes ((unat nameCharCnt - idx + (if isNullTerminated then 1 else 0)) * 2) c2
                in (True, b1, c3))))"

text \<open>
  \<open>ReadName\<close>. The temporary context is a copy of the chunk context with the offset
  set to the offset read; only its window and offset are used. The array of the
  caller is uninitialised; its first byte is set to zero.
\<close>

definition ReadName :: "ParseContext \<Rightarrow> nat \<Rightarrow> bool \<times> byte list \<times> ParseContext" where
  "ReadName c nameBufferSize =
     (let nameBuffer = replicate nameBufferSize 0 in
      if nameBufferSize < 2 then (False, nameBuffer, c)
      else (case ReadU32 c of
        None \<Rightarrow> (False, nameBuffer, c)
      | Some (chunkOffset, c1) \<Rightarrow>
          (let inPlace = (offset c1 + offsetFromChunkStart c1 = unat chunkOffset);
               p = (if inPlace then c1
                    else c1\<lparr> data := w_data (chunkContext c1), dataLen := w_dataLen (chunkContext c1),
                             offset := unat chunkOffset \<rparr>)
           in case ReadU32 p of
                None \<Rightarrow> (False, nameBuffer, if inPlace then p else c1)
              | Some (d, p1) \<Rightarrow>
                 (case ReadU16 p1 of
                    None \<Rightarrow> (False, nameBuffer, if inPlace then p1 else c1)
                  | Some (nameHash, p2) \<Rightarrow>
                     (case ReadPrefixedUnicodeString p2 nameBuffer nameBufferSize True of
                        (r, b, p3) \<Rightarrow> (r, b, if inPlace then p3 else c1))))))"

section \<open>The tokens of BinXml except the template instance\<close>

definition GetProperKeyName :: "ParseContext \<Rightarrow> Globals \<Rightarrow> byte list option" where
  "GetProperKeyName c g =
     (let k = GetName (nameStack g);
          upperName = GetUpperName (nameStack g)
      in if upperName \<noteq> None \<and> k \<noteq> None \<and> the k = lit ''Data''
            \<and> the upperName = lit ''EventData'' \<and> cachedValue c \<noteq> []
         then Some (cachedValue c) else k)"

definition ParseValueText :: "ParseContext \<Rightarrow> Globals \<Rightarrow> bool \<times> ParseContext \<times> Globals" where
  "ParseValueText c g =
     (case ReadU8 c of
        None \<Rightarrow> (False, c, g)
      | Some (stringType, c1) \<Rightarrow>
          (case ReadPrefixedUnicodeString c1 (replicate 256 0) 256 False of
             (False, b, c2) \<Rightarrow> (False, c2, g)
           | (True, valueBuffer, c2) \<Rightarrow>
               (let k = GetProperKeyName c2 g;
                    upperName = GetUpperName (nameStack g);
                    g1 = (if k \<noteq> None \<and> (upperName = None \<or> the k \<noteq> lit ''Name''
                                          \<or> the upperName \<noteq> lit ''Data'')
                          then update_template (currentTemplatePtr c2)
                                 (RegisterFixedPair (the k) (c_str valueBuffer)) g
                          else g);
                    (c3, g2) = SetState StateNormal c2 g1
                in (True, c3\<lparr> cachedValue := take 255 (c_str valueBuffer) \<rparr>, g2))))"

definition ParseAttributes :: "ParseContext \<Rightarrow> Globals \<Rightarrow> bool \<times> ParseContext \<times> Globals" where
  "ParseAttributes c g =
     (case ReadName c 256 of
        (False, b, c1) \<Rightarrow> (False, c1, g)
      | (True, nameBuffer, c1) \<Rightarrow>
          (let g1 = g\<lparr> nameStack := PushName (c_str nameBuffer) (nameStack g) \<rparr>;
               (c2, g2) = SetState StateInAttribute c1 g1
           in (True, c2, g2)))"

definition ParseOpenStartElement :: "ParseContext \<Rightarrow> Globals \<Rightarrow> bool \<Rightarrow> bool \<times> ParseContext \<times> Globals" where
  "ParseOpenStartElement c g hasAttributes =
     (case ReadU16 c of
        None \<Rightarrow> (False, c, g)
      | Some (w, c1) \<Rightarrow>
     (case ReadU32 c1 of
        None \<Rightarrow> (False, c1, g)
      | Some (elementLength, c2) \<Rightarrow>
     (case ReadName c2 256 of
        (False, b, c3) \<Rightarrow> (False, c3, g)
      | (True, nameBuffer, c3) \<Rightarrow>
          (let pushed = g\<lparr> nameStack := PushName (c_str nameBuffer) (nameStack g) \<rparr>
           in if hasAttributes then
                (case ReadU32 c3 of
                   None \<Rightarrow> (False, c3, g)
                 | Some (attributeListLength, c4) \<Rightarrow> (True, c4, pushed))
              else (True, c3, pushed)))))"

definition ParseCloseStartElement :: "ParseContext \<Rightarrow> Globals \<Rightarrow> bool \<times> ParseContext \<times> Globals" where
  "ParseCloseStartElement c g = (let (c1, g1) = SetState StateNormal c g in (True, c1, g1))"

definition ParseCloseElement :: "ParseContext \<Rightarrow> Globals \<Rightarrow> bool \<times> ParseContext \<times> Globals" where
  "ParseCloseElement c g =
     (let (c1, g1) = SetState StateNormal c g
      in (True, c1, g1\<lparr> nameStack := PopName (nameStack g1) \<rparr>))"

definition ParseOptionalSubstitution :: "ParseContext \<Rightarrow> Globals \<Rightarrow> bool \<times> ParseContext \<times> Globals" where
  "ParseOptionalSubstitution c g =
     (case ReadU16 c of
        None \<Rightarrow> (False, c, g)
      | Some (substitutionID, c1) \<Rightarrow>
     (case ReadU8 c1 of
        None \<Rightarrow> (False, c1, g)
      | Some (valueType0, c2) \<Rightarrow>
     (case (if valueType0 = 0 then ReadU8 c2 else Some (valueType0, c2)) of
        None \<Rightarrow> (False, c2, g)
      | Some (valueType, c3) \<Rightarrow>
          (let g1 = update_template (currentTemplatePtr c3)
                      (RegisterArgPair (GetProperKeyName c3 g) (ucast valueType) substitutionID) g;
               (c4, g2) = SetState StateNormal c3 g1
           in (True, c4, g2)))))"

section \<open>The arguments of a template instance\<close>

text \<open>
  The loops of the argument \<open>switch\<close>. Each returns false in its first component where
  the source returns false from \<open>ParseTemplateInstance\<close> (a failed read), with what
  was read and printed up to there.
\<close>

primrec String_loop ::
  "nat \<Rightarrow> byte list \<Rightarrow> nat \<Rightarrow> nat \<Rightarrow> ParseContext \<Rightarrow> bool \<times> byte list \<times> nat \<times> ParseContext" where
  "String_loop 0 b u sz c = (True, b, u, c)"
| "String_loop (Suc k) b u sz c =
     (case ReadU16 c of
        None \<Rightarrow> (False, b, u, c)
      | Some (w, c1) \<Rightarrow> (let (b1, u1) = UTF16ToUTF8 w b u sz in String_loop k b1 u1 sz c1))"

primrec Binary_loop :: "nat \<Rightarrow> ParseContext \<Rightarrow> Globals \<Rightarrow> bool \<times> ParseContext \<times> Globals" where
  "Binary_loop 0 c g = (True, c, g)"
| "Binary_loop (Suc k) c g =
     (case ReadU8 c of
        None \<Rightarrow> (False, c, g)
      | Some (v, c1) \<Rightarrow> Binary_loop k c1 (emit [PrHexByte v] g))"

function Sid_loop :: "nat \<Rightarrow> nat \<Rightarrow> ParseContext \<Rightarrow> Globals \<Rightarrow> bool \<times> ParseContext \<times> Globals" where
  "Sid_loop idx argLen c g =
     (if idx + 4 \<le> argLen then
        (case ReadU32 c of
           None \<Rightarrow> (False, c, g)
         | Some (v, c1) \<Rightarrow> Sid_loop (idx + 4) argLen c1 (emit [PrSidSub v] g))
      else (True, c, g))"
  by pat_completeness auto
termination
  by (relation "measure (\<lambda>(idx, argLen, c, g). argLen - idx)") auto

text \<open>
  The loop of the string array, on the temporary context: it ends when a read fails.
  \<open>utf8Buffer\<close> is an uninitialised array of 8 bytes.
\<close>

function StringArray_loop :: "ParseContext \<Rightarrow> bool \<Rightarrow> Globals \<Rightarrow> bool \<times> Globals" where
  "StringArray_loop tc inString g =
     (case ReadU16 tc of
        None \<Rightarrow> (inString, g)
      | Some (v0, tc1) \<Rightarrow>
          (let v = (if v0 = 0x0D \<or> v0 = 0x0A then 0x20 else v0)
           in if v = 0 then
                (if inString then StringArray_loop tc1 False (emit [PrArrayItemEnd] g)
                 else StringArray_loop tc1 inString g)
              else
                (let (b, u) = UTF16ToUTF8 v (replicate 8 0) 0 8
                 in StringArray_loop tc1 True (emit [PrArrayChars inString (c_str (b[u := 0]))] g))))"
  by pat_completeness auto
termination
  by (relation "measure (\<lambda>(tc, inString, g). dataLen tc - offset tc)")
     (auto simp: ReadU16_def ReadData_def HaveEnoughData_def Let_def split: if_splits prod.splits)

text \<open>
  One \<open>case\<close> of the \<open>switch\<close> on the type of an argument that has an argument pair
  \<open>(k, ty)\<close>, for every type but nested BinXml (0x21): the result is false where the
  source returns false, true where it reaches the end of the loop body.
\<close>

definition RenderPlainArgument ::
  "byte list \<Rightarrow> 16 word \<Rightarrow> 16 word \<Rightarrow> 16 word \<Rightarrow> ParseContext \<Rightarrow> Globals
   \<Rightarrow> bool \<times> ParseContext \<times> Globals" where
  "RenderPlainArgument k ty argLen argType c g =
     (if argType = 0x01 then
        (let stringSize = unat argLen * 2 + 2
         in case String_loop (unat argLen div 2) (replicate stringSize 0) 0 stringSize c of
              (False, b, u, c1) \<Rightarrow> (False, c1, g)
            | (True, b, u, c1) \<Rightarrow>
                (let u1 = (if u \<ge> stringSize then stringSize - 1 else u)
                 in (True, c1, emit [PrString k (c_str (b[u1 := 0]))] g)))
      else if argType = 0x04 then
        (case ReadU8 c of None \<Rightarrow> (False, c, g)
         | Some (v, c1) \<Rightarrow> (True, c1, emit [PrU8 k v] g))
      else if argType = 0x06 then
        (case ReadU16 c of None \<Rightarrow> (False, c, g)
         | Some (v, c1) \<Rightarrow> (True, c1, emit [PrU16 k v] g))
      else if argType = 0x08 then
        (case ReadU32 c of None \<Rightarrow> (False, c, g)
         | Some (v, c1) \<Rightarrow> (True, c1, emit [PrU32 k v] g))
      else if argType = 0x0A then
        (case ReadU64 c of None \<Rightarrow> (False, c, g)
         | Some (v, c1) \<Rightarrow> (True, c1, emit [PrU64 k v] g))
      else if argType = 0x0E then
        (case Binary_loop (unat argLen) c (emit [PrKey k] g) of
           (False, c1, g1) \<Rightarrow> (False, c1, g1)
         | (True, c1, g1) \<Rightarrow> (True, c1, emit [PrEnd] g1))
      else if argType = 0x0F then
        (case ReadData 16 1 c of
           (False, vs, c1) \<Rightarrow> (False, c1, g)
         | (True, vs, c1) \<Rightarrow> (True, c1, emit [PrGUID k (concat vs)] g))
      else if argType = 0x14 then
        (case ReadU32 c of None \<Rightarrow> (False, c, g)
         | Some (v, c1) \<Rightarrow> (True, c1, emit [PrHex32 k v] g))
      else if argType = 0x15 then
        (case ReadU64 c of None \<Rightarrow> (False, c, g)
         | Some (v, c1) \<Rightarrow> (True, c1, emit [PrHex64 k v] g))
      else if argType = 0x11 then
        (case ReadU64 c of None \<Rightarrow> (False, c, g)
         | Some (v, c1) \<Rightarrow> (True, c1, emit [PrFileTime k v] g))
      else if argType = 0x13 then
        (if unat argLen < 8 then (False, c, g)
         else (case ReadData 1 8 c of
            (False, vs, c1) \<Rightarrow> (False, c1, g)
          | (True, vs, c1) \<Rightarrow>
              (let sid = concat vs;
                   v_q = foldl (\<lambda>q b. push_bit 8 q OR ucast b) (0 :: 64 word) (take 6 (drop 2 sid))
               in case Sid_loop 8 (unat argLen) c1 (emit [PrSidHead k (sid ! 0) v_q] g) of
                    (False, c2, g2) \<Rightarrow> (False, c2, g2)
                  | (True, c2, g2) \<Rightarrow> (True, c2, emit [PrEnd] g2))))
      else if argType = 0x81 then
        (let temporaryCtx = UpdateLen (offset c + unat argLen) c;
             (inString, g1) = StringArray_loop temporaryCtx False (emit [PrArrayOpen k] g)
         in (True, SkipBytes (unat argLen) c, emit [PrArrayClose inString] g1))
      else
        (True, SkipBytes (unat argLen) c,
         if argType \<noteq> 0x00 then emit [PrUnknown k ty argLen] g else g))"

section \<open>The template instance and the token loop\<close>

text \<open>
  Every token but the template instance (0x0C), after the tag byte has been consumed.
\<close>

definition ParseToken :: "byte \<Rightarrow> ParseContext \<Rightarrow> Globals \<Rightarrow> bool \<times> ParseContext \<times> Globals" where
  "ParseToken tag c g =
     (if tag = 0x00 then (True, c\<lparr> offset := dataLen c \<rparr>, g)
      else if tag = 0x01 then ParseOpenStartElement c g False
      else if tag = 0x41 then ParseOpenStartElement c g True
      else if tag = 0x02 then ParseCloseStartElement c g
      else if tag = 0x03 \<or> tag = 0x04 then ParseCloseElement c g
      else if tag = 0x05 \<or> tag = 0x45 then ParseValueText c g
      else if tag = 0x06 \<or> tag = 0x46 then ParseAttributes c g
      else if tag = 0x07 \<or> tag = 0x47 \<or> tag = 0x08 \<or> tag = 0x48 \<or> tag = 0x09 \<or> tag = 0x49
              \<or> tag = 0x0A \<or> tag = 0x0B then (True, c, g)
      else if tag = 0x0D \<or> tag = 0x0E then ParseOptionalSubstitution c g
      else if tag = 0x0F then (True, SkipBytes 3 c, g)
      else (False, c, g))"

text \<open>
  \<open>ParseBinXml\<close> and \<open>ParseTemplateInstance\<close> call each other, and the loop of
  \<open>ParseBinXml\<close> goes on from the context a template instance leaves. They are defined
  with fuel: every call takes one unit, and \<open>OutOfFuel\<close> is the result when none is
  left. Each function is first written as its body, with the recursive calls made
  through the parameter \<open>call\<close>; \<open>decode\<close> then ties the knot by recursion on the fuel. \<open>Undefined\<close> is the result where the source reads the vector \<open>argumentMap\<close>
  beyond its size (the count \<open>numArguments * 2\<close> is computed in 32 bits).

  A result \<open>Returns r c g\<close> is the value returned, the context the caller passed by
  pointer as the call leaves it, and the globals.
\<close>

datatype outcome = Returns bool ParseContext Globals | OutOfFuel | Undefined

text \<open>
  The state after the template of an instance has been found or defined: either the
  function has returned (\<open>Stop\<close>), or it goes on to print and read the arguments with
  the argument count read last.
\<close>

datatype resolved = Stop outcome | Go "32 word" ParseContext Globals

text \<open>
  What \<open>currentTemplatePtr\<close> gives access to: the argument pair of an index (the key of
  \<open>args.find\<close> is the index converted to 16 bits) and the fixed pairs.
\<close>

definition argPair_of :: "ParseContext \<Rightarrow> Globals \<Rightarrow> nat \<Rightarrow> (byte list \<times> 16 word) option" where
  "argPair_of c g argumentIdx =
     (case currentTemplatePtr c of
        None \<Rightarrow> None
      | Some p \<Rightarrow> (case ids g p of None \<Rightarrow> None | Some d \<Rightarrow> args d (of_nat argumentIdx)))"

definition fixed_of :: "ParseContext \<Rightarrow> Globals \<Rightarrow> (byte list \<times> byte list) list" where
  "fixed_of c g =
     (case currentTemplatePtr c of
        None \<Rightarrow> []
      | Some p \<Rightarrow> (case ids g p of None \<Rightarrow> [] | Some d \<Rightarrow> fixed d))"

datatype call =
    Call_ParseBinXml_loop ParseContext Globals
  | Call_ParseTemplateInstance ParseContext Globals
  | Call_RenderArguments nat "32 word" "16 word list" ParseContext Globals
  | Call_RenderArgument "byte list" "16 word" "16 word" "16 word" ParseContext Globals

text \<open>The \<open>while\<close> loop of \<open>ParseBinXml\<close>, entered with \<open>result\<close> true.\<close>

definition ParseBinXml_loop_body :: "(call \<Rightarrow> outcome) \<Rightarrow> ParseContext \<Rightarrow> Globals \<Rightarrow> outcome" where
  "ParseBinXml_loop_body call c g =
     (if offset c < dataLen c then
        (let tag = data c ! offset c;
             c1 = c\<lparr> offset := offset c + 1 \<rparr>
         in case (if tag = 0x0C then call (Call_ParseTemplateInstance c1 g)
                  else (case ParseToken tag c1 g of (r, c2, g2) \<Rightarrow> Returns r c2 g2)) of
              Returns True c2 g2 \<Rightarrow> call (Call_ParseBinXml_loop c2 g2)
            | Returns False c2 g2 \<Rightarrow> Returns False c2 g2
            | OutOfFuel \<Rightarrow> OutOfFuel
            | Undefined \<Rightarrow> Undefined)
      else Returns True c g)"

text \<open>
  The first part of \<open>ParseTemplateInstance\<close>, up to the argument count that counts: the
  template is known, or its definition follows and is parsed in a child window.
\<close>

definition ResolveTemplate ::
  "(call \<Rightarrow> outcome) \<Rightarrow> 32 word \<Rightarrow> 32 word \<Rightarrow> ParseContext \<Rightarrow> Globals \<Rightarrow> resolved" where
  "ResolveTemplate call shortId numArguments0 c4 g =
     (if IsKnownID shortId g
      then Go numArguments0 (c4\<lparr> currentTemplatePtr := Some shortId \<rparr>) g
      else
        (case ReadData 1 16 c4 of
           (False, vs, c5) \<Rightarrow> Stop (Returns False c5 g)
         | (True, longID, c5) \<Rightarrow>
        (case ReadU32 c5 of
           None \<Rightarrow> Stop (Returns False c5 g)
         | Some (templateBodyLen, c6) \<Rightarrow>
           (let templateCtx = (InheritWithOffset c6 c6 (unat templateBodyLen))
                                \<lparr> currentTemplatePtr := Some shortId \<rparr>;
                g1 = RegisterID shortId g
            in case call (Call_ParseBinXml_loop (templateCtx\<lparr> state := StateNormal \<rparr>) g1) of
                 Returns False tc g2 \<Rightarrow> Stop (Returns False c6 g2)
               | Returns True tc g2 \<Rightarrow>
                   (case ReadU32 (SkipBytes (unat templateBodyLen) c6) of
                      None \<Rightarrow> Stop (Returns False (SkipBytes (unat templateBodyLen) c6) g2)
                    | Some (numArguments1, c7) \<Rightarrow>
                        Go numArguments1 (c7\<lparr> currentTemplatePtr := currentTemplatePtr tc \<rparr>) g2)
               | OutOfFuel \<Rightarrow> Stop OutOfFuel
               | Undefined \<Rightarrow> Stop Undefined))))"

definition ParseTemplateInstance_body :: "(call \<Rightarrow> outcome) \<Rightarrow> ParseContext \<Rightarrow> Globals \<Rightarrow> outcome" where
  "ParseTemplateInstance_body call c g =
     (case ReadU8 c of None \<Rightarrow> Returns False c g | Some (b, c1) \<Rightarrow>
      if b \<noteq> 0x01 then Returns False c1 g else
     (case ReadU32 c1 of None \<Rightarrow> Returns False c1 g | Some (shortId, c2) \<Rightarrow>
     (case ReadU32 c2 of None \<Rightarrow> Returns False c2 g | Some (tempResLen, c3) \<Rightarrow>
     (case ReadU32 c3 of None \<Rightarrow> Returns False c3 g | Some (numArguments0, c4) \<Rightarrow>
     (case ResolveTemplate call shortId numArguments0 c4 g of
        Stop r \<Rightarrow> r
      | Go numArguments c8 g3 \<Rightarrow>
          (let g4 = emit (map (\<lambda>(k, v). PrFixed k v) (fixed_of c8 g3)) g3;
               argumentMapCount = unat (numArguments * 2)
           in case ReadData 2 argumentMapCount c8 of
                (False, vs, c9) \<Rightarrow> Returns False c9 (emit [PrFailedArgs] g4)
              | (True, vs, c9) \<Rightarrow>
                  call (Call_RenderArguments 0 numArguments (map (\<lambda>v. of_nat (le_nat v)) vs) c9 g4)))))))"

text \<open>The \<open>for\<close> loop over the arguments, from the index \<open>argumentIdx\<close> on.\<close>

definition RenderArguments_body ::
  "(call \<Rightarrow> outcome) \<Rightarrow> nat \<Rightarrow> 32 word \<Rightarrow> 16 word list \<Rightarrow> ParseContext \<Rightarrow> Globals \<Rightarrow> outcome" where
  "RenderArguments_body call argumentIdx numArguments argumentMap c g =
     (if argumentIdx < unat numArguments then
        (if argumentIdx * 2 + 1 < length argumentMap then
           (let argLen = argumentMap ! (argumentIdx * 2);
                argType = argumentMap ! (argumentIdx * 2 + 1)
            in case argPair_of c g argumentIdx of
                 None \<Rightarrow>
                   call (Call_RenderArguments (argumentIdx + 1) numArguments argumentMap
                           (SkipBytes (unat argLen) c) g)
               | Some (k, ty) \<Rightarrow>
                   (case call (Call_RenderArgument k ty argLen argType c g) of
                      Returns True c1 g1 \<Rightarrow>
                        call (Call_RenderArguments (argumentIdx + 1) numArguments argumentMap c1 g1)
                    | Returns False c1 g1 \<Rightarrow> Returns False c1 g1
                    | OutOfFuel \<Rightarrow> OutOfFuel
                    | Undefined \<Rightarrow> Undefined))
         else Undefined)
      else Returns True c g)"

text \<open>
  The \<open>switch\<close> for an argument that has an argument pair: nested BinXml is parsed in
  a copy of the context with the window shortened, and its result is dropped.
\<close>

definition RenderArgument_body ::
  "(call \<Rightarrow> outcome) \<Rightarrow> byte list \<Rightarrow> 16 word \<Rightarrow> 16 word \<Rightarrow> 16 word \<Rightarrow> ParseContext \<Rightarrow> Globals \<Rightarrow> outcome" where
  "RenderArgument_body call k ty argLen argType c g =
     (if argType = 0x21 then
        (let temporaryCtx = UpdateLen (offset c + unat argLen) c
         in case call (Call_ParseBinXml_loop (temporaryCtx\<lparr> state := StateNormal \<rparr>) g) of
              Returns r tc g1 \<Rightarrow> Returns True (SkipBytes (unat argLen) c) g1
            | OutOfFuel \<Rightarrow> OutOfFuel
            | Undefined \<Rightarrow> Undefined)
      else (case RenderPlainArgument k ty argLen argType c g of
              (r, c1, g1) \<Rightarrow> Returns r c1 g1))"

primrec decode :: "nat \<Rightarrow> call \<Rightarrow> outcome" where
  "decode 0 x = OutOfFuel"
| "decode (Suc n) x =
     (case x of
        Call_ParseBinXml_loop c g \<Rightarrow> ParseBinXml_loop_body (decode n) c g
      | Call_ParseTemplateInstance c g \<Rightarrow> ParseTemplateInstance_body (decode n) c g
      | Call_RenderArguments argumentIdx numArguments argumentMap c g \<Rightarrow>
          RenderArguments_body (decode n) argumentIdx numArguments argumentMap c g
      | Call_RenderArgument k ty argLen argType c g \<Rightarrow>
          RenderArgument_body (decode n) k ty argLen argType c g)"

definition ParseBinXml_loop :: "nat \<Rightarrow> ParseContext \<Rightarrow> Globals \<Rightarrow> outcome" where
  "ParseBinXml_loop n c g = decode n (Call_ParseBinXml_loop c g)"

definition ParseTemplateInstance :: "nat \<Rightarrow> ParseContext \<Rightarrow> Globals \<Rightarrow> outcome" where
  "ParseTemplateInstance n c g = decode n (Call_ParseTemplateInstance c g)"



text \<open>\<open>ParseBinXml\<close> sets the state and runs the loop; \<open>ParseBinXmlPre\<close> builds the context.\<close>

definition ParseBinXml :: "nat \<Rightarrow> ParseContext \<Rightarrow> Globals \<Rightarrow> outcome" where
  "ParseBinXml n c g = ParseBinXml_loop n (c\<lparr> state := StateNormal \<rparr>) g"

definition ParseBinXmlPre :: "nat \<Rightarrow> byte list \<Rightarrow> nat \<Rightarrow> nat \<Rightarrow> nat \<Rightarrow> Globals \<Rightarrow> outcome" where
  "ParseBinXmlPre n d len chunkOffsetInFile inChunkOffset g =
     ParseBinXml n (PreContext d len inChunkOffset) g"

section \<open>The chunk and record walker\<close>

text \<open>
  The file is the list of its bytes. \<open>read\<close> of \<open>n\<close> bytes at an offset gives
  \<open>take n (drop off file)\<close>, fewer than \<open>n\<close> bytes at the end of the file. A field of a
  packed header struct is read at its byte offset: \<open>version\<close> at 36 of the file header;
  \<open>firstRecordNumber\<close> at 8 and \<open>lastRecordNumber\<close> at 16 of the chunk header, whose size
  is 0x200; \<open>magic\<close> at 0, \<open>size\<close> at 4, \<open>number\<close> at 8 and \<open>timestamp\<close> at 16 of the
  record header, whose size is 24.

  \<open>UnixTimeFromFileTime\<close> (tools/wintime.h) and \<open>gmtime_r\<close> are not part of the source:
  the walker takes as the parameter \<open>gm\<close> whether the conversion of a timestamp
  succeeds.
\<close>

definition EVTX_CHUNK_SIZE :: nat where
  "EVTX_CHUNK_SIZE = 0x10000"

definition u32_at :: "byte list \<Rightarrow> nat \<Rightarrow> 32 word" where
  "u32_at d i = of_nat (le_nat (take 4 (drop i d)))"

definition u64_at :: "byte list \<Rightarrow> nat \<Rightarrow> 64 word" where
  "u64_at d i = of_nat (le_nat (take 8 (drop i d)))"

text \<open>
  The test of the source on a record that failed to decode: its number is within the
  record numbers of the chunk header.
\<close>

definition number_in_range :: "byte list \<Rightarrow> nat \<Rightarrow> bool" where
  "number_in_range chunk inRecordOff =
     (u64_at chunk (inRecordOff + 8) \<ge> u64_at chunk 8 \<and> u64_at chunk (inRecordOff + 8) \<le> u64_at chunk 16)"

text \<open>
  The inner loop, from the offset \<open>inRecordOff\<close> on, entered with \<open>result\<close> true:
  \<open>Walked result inRecordOff g\<close> is the state when the loop is left. A record whose
  \<open>size\<close> is 0 is parsed again and again, so the loop takes fuel as well.
\<close>

datatype walk = Walked bool nat Globals | WalkOutOfFuel | WalkUndefined

primrec WalkRecords :: "nat \<Rightarrow> (64 word \<Rightarrow> bool) \<Rightarrow> byte list \<Rightarrow> nat \<Rightarrow> nat \<Rightarrow> Globals \<Rightarrow> walk" where
  "WalkRecords 0 gm chunk off inRecordOff g = WalkOutOfFuel"
| "WalkRecords (Suc n) gm chunk off inRecordOff g =
     (if inRecordOff + 24 > EVTX_CHUNK_SIZE then Walked True inRecordOff g
      else if u32_at chunk inRecordOff \<noteq> 0x00002a2a then Walked True inRecordOff g
      else if \<not> gm (u64_at chunk (inRecordOff + 16)) then Walked False inRecordOff g
      else
        (let g1 = emit [PrRecord (u64_at chunk (inRecordOff + 8)) (u64_at chunk (inRecordOff + 16))] g
         in case ParseBinXmlPre n chunk EVTX_CHUNK_SIZE off (inRecordOff + 24) g1 of
              Returns False c g2 \<Rightarrow>
                Walked (\<not> number_in_range chunk inRecordOff) inRecordOff g2
            | Returns True c g2 \<Rightarrow>
                WalkRecords n gm chunk off (inRecordOff + unat (u32_at chunk (inRecordOff + 4)))
                  (emit [PrNewline] g2)
            | OutOfFuel \<Rightarrow> WalkOutOfFuel
            | Undefined \<Rightarrow> WalkUndefined))"

text \<open>
  The first two statements of the body of the outer loop: \<open>ResetTemplates()\<close> and
  \<open>nameStack.Reset()\<close>.
\<close>

definition chunk_entry :: "Globals \<Rightarrow> Globals" where
  "chunk_entry g = (ResetTemplates g)\<lparr> nameStack := NameStack_Reset (nameStack g) \<rparr>"

text \<open>
  The outer loop of \<open>ParseEVTXInt\<close>, entered with \<open>result\<close> true, at the file offset
  \<open>off\<close>. \<open>lseek\<close> to an offset that is not negative as an \<open>off_t\<close> succeeds.
\<close>

datatype finished = Finished bool Globals | RunOutOfFuel | RunUndefined

primrec WalkChunks :: "nat \<Rightarrow> (64 word \<Rightarrow> bool) \<Rightarrow> byte list \<Rightarrow> nat \<Rightarrow> Globals \<Rightarrow> finished" where
  "WalkChunks 0 gm file off g = RunOutOfFuel"
| "WalkChunks (Suc n) gm file off g =
     (let g0 = chunk_entry g;
          chunk = take EVTX_CHUNK_SIZE (drop off file)
      in if off \<ge> 2 ^ 63 then Finished False g0
         else if length chunk \<noteq> EVTX_CHUNK_SIZE then Finished True g0
         else if take 8 chunk \<noteq> lit ''ElfChnk'' @ [0] then Finished True g0
         else (case WalkRecords n gm chunk off 0x200 g0 of
                 Walked result inRecordOff g1 \<Rightarrow>
                   (if inRecordOff > off + EVTX_CHUNK_SIZE then Finished False g1
                    else if result then WalkChunks n gm file (off + EVTX_CHUNK_SIZE) g1
                    else Finished False g1)
               | WalkOutOfFuel \<Rightarrow> RunOutOfFuel
               | WalkUndefined \<Rightarrow> RunUndefined))"

definition ParseEVTXInt :: "nat \<Rightarrow> (64 word \<Rightarrow> bool) \<Rightarrow> byte list \<Rightarrow> Globals \<Rightarrow> finished" where
  "ParseEVTXInt n gm file g =
     (if length (take 0x1000 file) \<noteq> 0x1000 then Finished False g
      else if u32_at file 36 \<noteq> 0x00030001 then Finished False g
      else WalkChunks n gm file 0x1000 g)"

text \<open>\<open>ParseEVTX\<close>: the file is \<open>None\<close> when \<open>open\<close> fails.\<close>

definition ParseEVTX :: "nat \<Rightarrow> (64 word \<Rightarrow> bool) \<Rightarrow> byte list option \<Rightarrow> Globals \<Rightarrow> finished" where
  "ParseEVTX n gm f g =
     (case f of
        None \<Rightarrow> Finished False g
      | Some file \<Rightarrow>
          (case ParseEVTXInt n gm file g of
             Finished result g1 \<Rightarrow> Finished result (if \<not> result then emit [PrFailedOn] g1 else g1)
           | RunOutOfFuel \<Rightarrow> RunOutOfFuel
           | RunUndefined \<Rightarrow> RunUndefined))"

section \<open>Example inputs\<close>

text \<open>
  A name stack with \<open>EventData\<close> and \<open>Data\<close> on it, one template with the id 1, and
  contexts that hold one \<open>ValueText\<close> and one substitution.
\<close>

definition ex_stack :: NameStack where
  "ex_stack = PushName (lit ''Data'') (PushName (lit ''EventData'') NameStack_new)"

definition ex_globals :: Globals where
  "ex_globals = \<lparr> nameStack = ex_stack, ids = [1 \<mapsto> TemplateDescription_new], out = [] \<rparr>"

definition ex_value_ctx :: ParseContext where
  "ex_value_ctx = (PreContext [1, 1, 0, 0x76, 0] 5 0)\<lparr> currentTemplatePtr := Some 1, cachedValue := lit ''X'' \<rparr>"

definition ex_subst_ctx :: ParseContext where
  "ex_subst_ctx = (PreContext [0, 0, 8] 3 0)\<lparr> currentTemplatePtr := Some 1, cachedValue := lit ''X'' \<rparr>"




text \<open>
  A chunk of 28 bytes with the name \<open>A\<close> at the offset 0 and the name \<open>B\<close> at the
  offset 12 (link, hash, count, unit, terminator), and a reference to the chunk offset
  0 at the offset 24; a context on it at 12; its child window, moved on by 12 bytes;
  and the child window of that child at the reference.
\<close>

definition ex_name_chunk :: "byte list" where
  "ex_name_chunk =
     [0, 0, 0, 0, 0, 0, 1, 0, 0x41, 0, 0, 0,
      0, 0, 0, 0, 0, 0, 1, 0, 0x42, 0, 0, 0,
      0, 0, 0, 0]"

definition ex_top :: ParseContext where
  "ex_top = PreContext ex_name_chunk 28 12"

definition ex_parent :: ParseContext where
  "ex_parent = (InheritWithOffset ex_top ex_top 16)\<lparr> offset := 12 \<rparr>"

definition ex_child :: ParseContext where
  "ex_child = InheritWithOffset ex_parent ex_parent 4"

section \<open>Properties of the byte reader\<close>

lemma ReadData_loop_eq:
  "ReadData_loop sz n c =
     (map (\<lambda>i. take sz (drop (offset c + i * sz) (data c))) [0..<n],
      c\<lparr> offset := offset c + n * sz \<rparr>)"
proof (induction n arbitrary: c)
  case 0
  then show ?case by simp
next
  case (Suc n)
  have "[0..<Suc n] = 0 # map Suc [0..<n]"
    by (simp add: upt_conv_Cons map_Suc_upt del: upt_Suc)
  then show ?case
    by (simp add: Suc.IH o_def ac_simps del: upt_Suc)
qed


text \<open>
  C9. A read that fails returns the context it was given: offset, window length, buffer
  and every other field are as before the call.
\<close>

theorem ReadData_failure_keeps_context:
  "\<not> fst (ReadData sz n c) \<Longrightarrow> snd (snd (ReadData sz n c)) = c"
  by (simp add: ReadData_def split: if_splits prod.splits)

theorem ReadData_failure_keeps_context_witness:
  "\<not> fst (ReadData 4 1 (PreContext [1, 2, 3] 3 1))
   \<and> snd (snd (ReadData 4 1 (PreContext [1, 2, 3] 3 1))) = PreContext [1, 2, 3] 3 1"
proof -
  have h: "\<not> fst (ReadData 4 1 (PreContext [1, 2, 3] 3 1))"
    by (simp add: ReadData_def HaveEnoughData_def PreContext_def)
  from ReadData_failure_keeps_context [OF h] h show ?thesis by simp
qed

lemma ReadU8_Some:
  "ReadU8 c = Some (v, c1) \<Longrightarrow> c1 = c\<lparr> offset := offset c + 1 \<rparr> \<and> offset c + 1 \<le> dataLen c"
  by (auto simp: ReadU8_def ReadData_def HaveEnoughData_def split: if_splits prod.splits)

lemma ReadU16_Some:
  "ReadU16 c = Some (v, c1) \<Longrightarrow> c1 = c\<lparr> offset := offset c + 2 \<rparr> \<and> offset c + 2 \<le> dataLen c"
  by (auto simp: ReadU16_def ReadData_def HaveEnoughData_def split: if_splits prod.splits)



section \<open>Properties of the name stack\<close>

lemma NameStack_apply_bounds:
  "- 1 \<le> nameStackPtr ns \<Longrightarrow> nameStackPtr ns \<le> 19 \<Longrightarrow>
   - 1 \<le> nameStackPtr (NameStack_apply ns x) \<and> nameStackPtr (NameStack_apply ns x) \<le> 19"
  by (cases x)
     (auto simp: PushName_def PopName_def NameStack_Reset_def Let_def
                 MAX_NAME_STACK_DEPTH_def INVALID_STACK_DEPTH_def)

lemma NameStack_foldl_bounds:
  "- 1 \<le> nameStackPtr ns \<Longrightarrow> nameStackPtr ns \<le> 19 \<Longrightarrow>
   - 1 \<le> nameStackPtr (foldl NameStack_apply ns xs) \<and> nameStackPtr (foldl NameStack_apply ns xs) \<le> 19"
proof (induction xs arbitrary: ns)
  case Nil
  then show ?case by simp
next
  case (Cons x xs)
  from NameStack_apply_bounds [OF Cons.prems] Cons.IH show ?case by simp
qed

text \<open>
  C6. After every sequence of operations on a new name stack (so also after every prefix
  of it) the depth is between 0 and 20, and a push on a stack of depth 20 returns the
  stack unchanged.
\<close>

theorem NameStack_depth_bounded:
  "0 \<le> depth (NameStack_run xs) \<and> depth (NameStack_run xs) \<le> 20
   \<and> (depth (NameStack_run xs) = 20 \<longrightarrow> PushName name (NameStack_run xs) = NameStack_run xs)"
proof -
  have "- 1 \<le> nameStackPtr (NameStack_run xs) \<and> nameStackPtr (NameStack_run xs) \<le> 19"
    unfolding NameStack_run_def
    by (rule NameStack_foldl_bounds) (simp_all add: NameStack_new_def INVALID_STACK_DEPTH_def)
  then show ?thesis
    by (simp add: depth_def PushName_def MAX_NAME_STACK_DEPTH_def)
qed

theorem NameStack_depth_bounded_witness:
  "depth (NameStack_run (replicate 20 (OpPush [0x41]))) = 20
   \<and> PushName [0x42] (NameStack_run (replicate 20 (OpPush [0x41])))
       = NameStack_run (replicate 20 (OpPush [0x41]))"
proof -
  have h: "depth (NameStack_run (replicate 20 (OpPush [0x41]))) = 20"
    by (simp add: NameStack_run_def eval_nat_numeral depth_def PushName_def NameStack_new_def
      MAX_NAME_STACK_DEPTH_def INVALID_STACK_DEPTH_def)
  from NameStack_depth_bounded [of "replicate 20 (OpPush [0x41])" "[0x42]"] h
  show ?thesis by simp
qed

section \<open>Properties of the transcoder\<close>

lemma UTF16ToUTF8_used:
  "snd (UTF16ToUTF8 w buffer bufferUsed bufferSize) =
     (let k = (if unat w \<le> 0x7F then 1 else if unat w \<le> 0x7FF then 2 else 3)
      in if bufferUsed + k < bufferSize then bufferUsed + k else bufferUsed)"
  using unsigned_less [of w, where ?'a = nat]
  by (auto simp: UTF16ToUTF8_def Let_def split: prod.splits)

lemma UTF16ToUTF8_loop_length: "length (fst (UTF16ToUTF8_loop k w b u)) = length b"
  by (induction k arbitrary: w b) auto

lemma UTF16ToUTF8_loop_nth:
  "i \<le> u \<or> u + k < i \<Longrightarrow> fst (UTF16ToUTF8_loop k w b u) ! i = b ! i"
  by (induction k arbitrary: w b) auto

lemma UTF16ToUTF8_length:
  "length (fst (UTF16ToUTF8 w buffer bufferUsed bufferSize)) = length buffer"
  using UTF16ToUTF8_loop_length [of _ w buffer bufferUsed]
  by (auto simp: UTF16ToUTF8_def Let_def split: prod.splits)

lemma UTF16ToUTF8_nth:
  assumes "i < bufferUsed \<or> snd (UTF16ToUTF8 w buffer bufferUsed bufferSize) \<le> i"
  shows "fst (UTF16ToUTF8 w buffer bufferUsed bufferSize) ! i = buffer ! i"
proof -
  have l: "\<And>k. i < bufferUsed \<or> bufferUsed + k < i \<Longrightarrow>
      fst (UTF16ToUTF8_loop k w buffer bufferUsed) ! i = buffer ! i"
    by (rule UTF16ToUTF8_loop_nth) auto
  from assms show ?thesis
    using unsigned_less [of w, where ?'a = nat]
    by (auto simp: UTF16ToUTF8_def Let_def l split: prod.splits if_splits dest!: l)
qed

text \<open>
  C7. The transcoder appends 1 byte for a unit up to 0x7F, 2 bytes for a unit from 0x80
  to 0x7FF and 3 bytes for a unit from 0x800 to 0xFFFF, when \<open>bufferUsed\<close> plus that
  number is below \<open>bufferSize\<close>, and nothing otherwise. Only the cells from the old
  to the new \<open>bufferUsed\<close> can change, and no cell at or past \<open>bufferSize\<close> changes,
  whatever the buffer held: nothing is written there.
\<close>

theorem UTF16ToUTF8_spec:
  "(let k = (if unat w \<le> 0x7F then 1 else if unat w \<le> 0x7FF then 2 else 3);
        (buffer1, used1) = UTF16ToUTF8 w buffer bufferUsed bufferSize
    in used1 = (if bufferUsed + k < bufferSize then bufferUsed + k else bufferUsed)
       \<and> length buffer1 = length buffer
       \<and> (\<forall>i. i < bufferUsed \<or> used1 \<le> i \<longrightarrow> buffer1 ! i = buffer ! i)
       \<and> (\<forall>i. bufferSize \<le> i \<longrightarrow> buffer1 ! i = buffer ! i))"
proof -
  obtain buffer1 used1 where r: "UTF16ToUTF8 w buffer bufferUsed bufferSize = (buffer1, used1)"
    by (cases "UTF16ToUTF8 w buffer bufferUsed bufferSize")
  have u: "used1 = (let k = (if unat w \<le> 0x7F then 1 else if unat w \<le> 0x7FF then 2 else 3)
      in if bufferUsed + k < bufferSize then bufferUsed + k else bufferUsed)"
    using UTF16ToUTF8_used [of w buffer bufferUsed bufferSize] r by simp
  have len: "length buffer1 = length buffer"
    using UTF16ToUTF8_length [of w buffer bufferUsed bufferSize] r by simp
  have n: "\<And>i. i < bufferUsed \<or> used1 \<le> i \<Longrightarrow> buffer1 ! i = buffer ! i"
    using UTF16ToUTF8_nth [of _ bufferUsed w buffer bufferSize] r by simp
  have "used1 \<le> bufferSize \<or> used1 = bufferUsed"
    using u by (auto simp: Let_def split: if_splits)
  then have p: "\<And>i. bufferSize \<le> i \<Longrightarrow> buffer1 ! i = buffer ! i"
  proof
    fix i assume "used1 \<le> bufferSize" "bufferSize \<le> i"
    then have "used1 \<le> i" by simp
    then show "buffer1 ! i = buffer ! i" using n by simp
  next
    fix i assume "used1 = bufferUsed"
    then have "i < bufferUsed \<or> used1 \<le> i" by auto
    then show "buffer1 ! i = buffer ! i" by (rule n)
  qed
  show ?thesis
    using u len n p by (simp add: r Let_def)
qed

lemma UTF16ToUTF8_loop_numeral:
  "UTF16ToUTF8_loop (numeral n) w b u = UTF16ToUTF8_loop (Suc (pred_numeral n)) w b u"
  by (simp add: numeral_eq_Suc)

theorem UTF16ToUTF8_spec_witness:
  "UTF16ToUTF8 0x41 [0, 0, 0, 0, 0, 0, 0, 0] 0 8 = ([0x41, 0, 0, 0, 0, 0, 0, 0], 1)
   \<and> UTF16ToUTF8 0x3A9 [0, 0, 0, 0, 0, 0, 0, 0] 0 8 = ([0xCE, 0xA9, 0, 0, 0, 0, 0, 0], 2)
   \<and> UTF16ToUTF8 0x20AC [0, 0, 0, 0, 0, 0, 0, 0] 0 8 = ([0xE2, 0x82, 0xAC, 0, 0, 0, 0, 0], 3)
   \<and> UTF16ToUTF8 0x20AC [0, 0, 0, 0, 0, 0, 0, 0] 5 8 = ([0, 0, 0, 0, 0, 0, 0, 0], 5)"
proof -
  have a: "UTF16ToUTF8 0x41 [0, 0, 0, 0, 0, 0, 0, 0] 0 8 = ([0x41, 0, 0, 0, 0, 0, 0, 0], 1)"
    by (simp add: UTF16ToUTF8_def)
  have b: "UTF16ToUTF8 0x3A9 [0, 0, 0, 0, 0, 0, 0, 0] 0 8 = ([0xCE, 0xA9, 0, 0, 0, 0, 0, 0], 2)"
    by (simp add: UTF16ToUTF8_def UTF16ToUTF8_loop_numeral)
  have c: "UTF16ToUTF8 0x20AC [0, 0, 0, 0, 0, 0, 0, 0] 0 8 = ([0xE2, 0x82, 0xAC, 0, 0, 0, 0, 0], 3)"
    by (simp add: UTF16ToUTF8_def UTF16ToUTF8_loop_numeral)
  have d: "UTF16ToUTF8 0x20AC [0, 0, 0, 0, 0, 0, 0, 0] 5 8 = ([0, 0, 0, 0, 0, 0, 0, 0], 5)"
    by (simp add: UTF16ToUTF8_def)
  have "snd (UTF16ToUTF8 0x20AC [0, 0, 0, 0, 0, 0, 0, 0] 0 8) = 3"
    using UTF16ToUTF8_spec [of "0x20AC" "[0, 0, 0, 0, 0, 0, 0, 0]" 0 8,
            unfolded Let_def case_prod_beta, THEN conjunct1]
    by simp
  with a b c d show ?thesis by simp
qed

section \<open>Properties of the string reader\<close>

declare ReadPrefixedUnicodeString_loop.simps [simp del]

lemma ReadU8_eq:
  "ReadU8 c = (if offset c + 1 \<le> dataLen c
               then Some (of_nat (le_nat (take 1 (drop (offset c) (data c)))), c\<lparr> offset := offset c + 1 \<rparr>)
               else None)"
  by (simp add: ReadU8_def ReadData_def HaveEnoughData_def ReadData_loop_eq)

lemma ReadU16_eq:
  "ReadU16 c = (if offset c + 2 \<le> dataLen c
               then Some (of_nat (le_nat (take 2 (drop (offset c) (data c)))), c\<lparr> offset := offset c + 2 \<rparr>)
               else None)"
  by (simp add: ReadU16_def ReadData_def HaveEnoughData_def ReadData_loop_eq)

lemma ReadU32_eq:
  "ReadU32 c = (if offset c + 4 \<le> dataLen c
               then Some (of_nat (le_nat (take 4 (drop (offset c) (data c)))), c\<lparr> offset := offset c + 4 \<rparr>)
               else None)"
  by (simp add: ReadU32_def ReadData_def HaveEnoughData_def ReadData_loop_eq)

lemma ReadU64_eq:
  "ReadU64 c = (if offset c + 8 \<le> dataLen c
               then Some (of_nat (le_nat (take 8 (drop (offset c) (data c)))), c\<lparr> offset := offset c + 8 \<rparr>)
               else None)"
  by (simp add: ReadU64_def ReadData_def HaveEnoughData_def ReadData_loop_eq)

lemma ReadPrefixedUnicodeString_loop_offset:
  "ReadPrefixedUnicodeString_loop cnt sz idx b u c = (True, idx1, b1, u1, c1) \<Longrightarrow> idx \<le> cnt \<Longrightarrow>
   idx \<le> idx1 \<and> idx1 \<le> cnt \<and> c1 = c\<lparr> offset := offset c + 2 * (idx1 - idx) \<rparr>"
proof (induction cnt sz idx b u c rule: ReadPrefixedUnicodeString_loop.induct)
  case (1 cnt sz idx b u c)
  show ?case
  proof (cases "idx < cnt \<and> idx * 2 < size_t_sub sz 1")
    case False
    with "1.prems" show ?thesis
      by (auto simp: ReadPrefixedUnicodeString_loop.simps [of cnt sz idx] split: if_splits)
  next
    case True
    with "1.prems" obtain w c2 where r: "ReadU16 c = Some (w, c2)"
      by (cases "ReadU16 c") (auto simp: ReadPrefixedUnicodeString_loop.simps [of cnt sz idx])
    obtain b2 u2 where t: "UTF16ToUTF8 w b u sz = (b2, u2)"
      by (cases "UTF16ToUTF8 w b u sz")
    from True r t "1.prems"
    have rec: "ReadPrefixedUnicodeString_loop cnt sz (idx + 1) b2 u2 c2 = (True, idx1, b1, u1, c1)"
      by (simp add: ReadPrefixedUnicodeString_loop.simps [of cnt sz idx])
    from True have le: "idx + 1 \<le> cnt" by simp
    from "1.IH" [OF True r refl refl t [symmetric] rec le]
    have ih: "idx + 1 \<le> idx1 \<and> idx1 \<le> cnt \<and> c1 = c2\<lparr> offset := offset c2 + 2 * (idx1 - (idx + 1)) \<rparr>" .
    from ReadU16_Some [OF r] have c2: "c2 = c\<lparr> offset := offset c + 2 \<rparr>"
      by simp
    from ih c2 show ?thesis by auto
  qed
qed

text \<open>
  C10. A read of a length-prefixed string that succeeds leaves the context with the
  offset advanced by 2 for the count, 2 for each of the \<open>nameCharCnt\<close> units the
  prefix declares, and 2 more when a terminating unit is expected, and changes nothing
  else of the context: whatever the size of the destination buffer and however much
  of the string it could hold.
\<close>

theorem ReadPrefixedUnicodeString_advance:
  assumes "ReadPrefixedUnicodeString c nameBuffer nameBufferSize isNullTerminated = (True, b, c1)"
  shows "\<exists>nameCharCnt c0. ReadU16 c = Some (nameCharCnt, c0)
           \<and> c1 = c\<lparr> offset := offset c + 2 + 2 * unat nameCharCnt
                                     + (if isNullTerminated then 2 else 0) \<rparr>"
proof -
  from assms obtain n c0 where r: "ReadU16 c = Some (n, c0)"
    by (cases "ReadU16 c") (auto simp: ReadPrefixedUnicodeString_def)
  from assms r obtain idx b2 u2 c2 where
    l: "ReadPrefixedUnicodeString_loop (unat n) nameBufferSize 0 nameBuffer 0 c0 = (True, idx, b2, u2, c2)"
    and e: "c1 = SkipBytes ((unat n - idx + (if isNullTerminated then 1 else 0)) * 2) c2"
    by (auto simp: ReadPrefixedUnicodeString_def Let_def split: prod.splits bool.splits)
  from ReadPrefixedUnicodeString_loop_offset [OF l]
  have i: "idx \<le> unat n" and c2: "c2 = c0\<lparr> offset := offset c0 + 2 * idx \<rparr>" by simp_all
  from ReadU16_Some [OF r] have c0: "c0 = c\<lparr> offset := offset c + 2 \<rparr>" by simp
  from e c2 c0 i have "c1 = c\<lparr> offset := offset c + 2 + 2 * unat n + (if isNullTerminated then 2 else 0) \<rparr>"
    by (simp add: SkipBytes_def algebra_simps)
  with r show ?thesis by blast
qed

lemma replicate_numeral_Cons: "replicate (numeral k) x = x # replicate (pred_numeral k) x"
  by (simp add: numeral_eq_Suc)

lemma list_update_numeral_Cons: "(x # xs)[numeral k := y] = x # xs[pred_numeral k := y]"
  by (simp add: numeral_eq_Suc)

lemmas read_eqs = ReadU8_eq ReadU16_eq ReadU32_eq ReadU64_eq

theorem ReadPrefixedUnicodeString_advance_witness:
  "ReadPrefixedUnicodeString (PreContext [2, 0, 0x41, 0, 0x42, 0, 0, 0] 8 0) [0, 0] 2 True
     = (True, [0x41, 0], (PreContext [2, 0, 0x41, 0, 0x42, 0, 0, 0] 8 0)\<lparr> offset := 8 \<rparr>)"
proof -
  have e: "ReadPrefixedUnicodeString (PreContext [2, 0, 0x41, 0, 0x42, 0, 0, 0] 8 0) [0, 0] 2 True
     = (True, [0x41, 0], (PreContext [2, 0, 0x41, 0, 0x42, 0, 0, 0] 8 0)\<lparr> offset := 8 \<rparr>)"
    by (simp add: ReadPrefixedUnicodeString_def ReadPrefixedUnicodeString_loop.simps read_eqs
         PreContext_def UTF16ToUTF8_def size_t_sub_def SkipBytes_def)
  from ReadPrefixedUnicodeString_advance [OF e] e show ?thesis by simp
qed

section \<open>Properties of the key of a registration\<close>

lemma ReadPrefixedUnicodeString_loop_fields:
  "ReadPrefixedUnicodeString_loop cnt sz idx b u c = (r, idx1, b1, u1, c1) \<Longrightarrow>
   cachedValue c1 = cachedValue c \<and> currentTemplatePtr c1 = currentTemplatePtr c"
proof (induction cnt sz idx b u c rule: ReadPrefixedUnicodeString_loop.induct)
  case (1 cnt sz idx b u c)
  show ?case
  proof (cases "idx < cnt \<and> idx * 2 < size_t_sub sz 1")
    case False
    with "1.prems" show ?thesis
      by (auto simp: ReadPrefixedUnicodeString_loop.simps [of cnt sz idx] split: if_splits)
  next
    case True
    show ?thesis
    proof (cases "ReadU16 c")
      case None
      with True "1.prems" show ?thesis
        by (auto simp: ReadPrefixedUnicodeString_loop.simps [of cnt sz idx])
    next
      case (Some a)
      obtain w c2 where a: "a = (w, c2)" by (cases a)
      obtain b2 u2 where t: "UTF16ToUTF8 w b u sz = (b2, u2)"
        by (cases "UTF16ToUTF8 w b u sz")
      from True Some a t "1.prems"
      have rec: "ReadPrefixedUnicodeString_loop cnt sz (idx + 1) b2 u2 c2 = (r, idx1, b1, u1, c1)"
        by (simp add: ReadPrefixedUnicodeString_loop.simps [of cnt sz idx])
      from Some a have r2: "ReadU16 c = Some (w, c2)" by simp
      from "1.IH" [OF True r2 refl refl t [symmetric] rec]
      have "cachedValue c1 = cachedValue c2 \<and> currentTemplatePtr c1 = currentTemplatePtr c2" .
      with ReadU16_Some [OF r2] show ?thesis by simp
    qed
  qed
qed

lemma ReadPrefixedUnicodeString_fields:
  assumes "ReadPrefixedUnicodeString c nb sz nt = (r, b, c1)"
  shows "cachedValue c1 = cachedValue c \<and> currentTemplatePtr c1 = currentTemplatePtr c"
proof (cases "ReadU16 c")
  case None
  with assms show ?thesis by (simp add: ReadPrefixedUnicodeString_def)
next
  case (Some a)
  obtain n c0 where a: "a = (n, c0)" by (cases a)
  with Some have r0: "ReadU16 c = Some (n, c0)" by simp
  obtain r2 idx b2 u2 c2 where
    l: "ReadPrefixedUnicodeString_loop (unat n) sz 0 nb 0 c0 = (r2, idx, b2, u2, c2)"
    by (cases "ReadPrefixedUnicodeString_loop (unat n) sz 0 nb 0 c0") auto
  from ReadPrefixedUnicodeString_loop_fields [OF l] ReadU16_Some [OF r0]
  have f: "cachedValue c2 = cachedValue c \<and> currentTemplatePtr c2 = currentTemplatePtr c" by simp
  from assms r0 l f show ?thesis
    by (cases r2) (auto simp: ReadPrefixedUnicodeString_def SkipBytes_def Let_def)
qed

lemma GetProperKeyName_cong:
  "cachedValue c1 = cachedValue c \<Longrightarrow> GetProperKeyName c1 g = GetProperKeyName c g"
  by (auto simp: GetProperKeyName_def Let_def)

lemma GetProperKeyName_eq:
  "GetProperKeyName c g =
     (if GetName (nameStack g) = Some (lit ''Data'')
         \<and> GetUpperName (nameStack g) = Some (lit ''EventData'') \<and> cachedValue c \<noteq> []
      then Some (cachedValue c) else GetName (nameStack g))"
  by (auto simp: GetProperKeyName_def Let_def)

lemma ParseValueText_registration:
  assumes "ParseValueText c g = (True, c1, g1)"
  shows "ids g1 = ids g \<or>
         (\<exists>p d k v. currentTemplatePtr c = Some p \<and> ids g p = Some d
            \<and> GetProperKeyName c g = Some k
            \<and> ids g1 = (ids g)(p \<mapsto> d\<lparr> fixed := fixed d @ [(k, v)] \<rparr>))"
proof -
  from assms obtain st c0 where r0: "ReadU8 c = Some (st, c0)"
    by (cases "ReadU8 c") (auto simp: ParseValueText_def)
  from assms r0 obtain vb c2 where
    r2: "ReadPrefixedUnicodeString c0 (replicate 256 0) 256 False = (True, vb, c2)"
    by (cases "ReadPrefixedUnicodeString c0 (replicate 256 0) 256 False")
       (auto simp: ParseValueText_def split: bool.splits)
  from ReadPrefixedUnicodeString_fields [OF r2] ReadU8_Some [OF r0]
  have f: "cachedValue c2 = cachedValue c" "currentTemplatePtr c2 = currentTemplatePtr c"
    by simp_all
  have k: "GetProperKeyName c2 g = GetProperKeyName c g"
    by (rule GetProperKeyName_cong) (rule f)
  define reg where "reg = (GetProperKeyName c g \<noteq> None \<and> (GetUpperName (nameStack g) = None
       \<or> the (GetProperKeyName c g) \<noteq> lit ''Name'' \<or> the (GetUpperName (nameStack g)) \<noteq> lit ''Data''))"
  define g0 where "g0 = (if reg then update_template (currentTemplatePtr c)
       (RegisterFixedPair (the (GetProperKeyName c g)) (c_str vb)) g else g)"
  have s: "ids (snd (SetState StateNormal c2 g0)) = ids g0"
    by (simp add: SetState_def)
  from assms r0 r2 k f have "g1 = snd (SetState StateNormal c2 g0)"
    by (auto simp: ParseValueText_def Let_def g0_def reg_def split: prod.splits)
  with s have i: "ids g1 = ids g0" by simp
  show ?thesis
  proof (cases "reg \<and> currentTemplatePtr c \<noteq> None \<and> ids g (the (currentTemplatePtr c)) \<noteq> None")
    case False
    then have "ids g0 = ids g"
      by (auto simp: g0_def update_template_def split: option.splits)
    with i show ?thesis by simp
  next
    case True
    then obtain p d k where p: "currentTemplatePtr c = Some p" "ids g p = Some d"
      "GetProperKeyName c g = Some k"
      by (auto simp: reg_def)
    with True have "ids g0 = (ids g)(p \<mapsto> d\<lparr> fixed := fixed d @ [(k, c_str vb)] \<rparr>)"
      by (simp add: g0_def update_template_def RegisterFixedPair_def)
    with i p show ?thesis
      by (intro disjI2 exI [of _ p] exI [of _ d] exI [of _ k] exI [of _ "c_str vb"]) simp
  qed
qed

lemma ParseOptionalSubstitution_registration:
  assumes "ParseOptionalSubstitution c g = (True, c1, g1)"
  shows "ids g1 = ids g \<or>
         (\<exists>p d i ty. currentTemplatePtr c = Some p \<and> ids g p = Some d \<and> args d i = None
            \<and> ids g1 = (ids g)(p \<mapsto> d\<lparr> args := (args d)(i \<mapsto>
                 ((case GetProperKeyName c g of Some k \<Rightarrow> k | None \<Rightarrow> []), ty)) \<rparr>))"
proof -
  from assms obtain i c0 where r0: "ReadU16 c = Some (i, c0)"
    by (cases "ReadU16 c") (auto simp: ParseOptionalSubstitution_def)
  from assms r0 obtain t0 c2 where r1: "ReadU8 c0 = Some (t0, c2)"
    by (cases "ReadU8 c0") (auto simp: ParseOptionalSubstitution_def)
  from assms r0 r1 obtain t c3 where
    r2: "(if t0 = 0 then ReadU8 c2 else Some (t0, c2)) = Some (t, c3)"
    by (cases "if t0 = 0 then ReadU8 c2 else Some (t0, c2)")
       (auto simp: ParseOptionalSubstitution_def)
  have "cachedValue c3 = cachedValue c2 \<and> currentTemplatePtr c3 = currentTemplatePtr c2"
    using r2 by (cases "t0 = 0") (auto dest: ReadU8_Some)
  with ReadU16_Some [OF r0] ReadU8_Some [OF r1]
  have f: "cachedValue c3 = cachedValue c" "currentTemplatePtr c3 = currentTemplatePtr c"
    by simp_all
  have k: "GetProperKeyName c3 g = GetProperKeyName c g"
    by (rule GetProperKeyName_cong) (rule f)
  define g0 where "g0 = update_template (currentTemplatePtr c)
       (RegisterArgPair (GetProperKeyName c g) (ucast t) i) g"
  have s: "ids (snd (SetState StateNormal c3 g0)) = ids g0"
    by (simp add: SetState_def)
  from assms r0 r1 r2 k f have "g1 = snd (SetState StateNormal c3 g0)"
    by (auto simp: ParseOptionalSubstitution_def Let_def g0_def split: prod.splits)
  with s have e: "ids g1 = ids g0" by simp
  show ?thesis
  proof (cases "currentTemplatePtr c")
    case None
    with e show ?thesis by (simp add: g0_def update_template_def)
  next
    case (Some p)
    show ?thesis
    proof (cases "ids g p")
      case None
      with Some e show ?thesis by (simp add: g0_def update_template_def)
    next
      case d: (Some d)
      show ?thesis
      proof (cases "args d i")
        case None
        with Some d have "ids g0 = (ids g)(p \<mapsto> d\<lparr> args := (args d)(i \<mapsto>
                 ((case GetProperKeyName c g of Some k \<Rightarrow> k | None \<Rightarrow> []), ucast t)) \<rparr>)"
          by (simp add: g0_def update_template_def RegisterArgPair_def)
        with e Some d None show ?thesis
          by (intro disjI2 exI [of _ p] exI [of _ d] exI [of _ i] exI [of _ "ucast t"]) simp
      next
        case a: (Some a)
        with Some d have "ids g0 = (ids g)(p \<mapsto> d)"
          by (simp add: g0_def update_template_def RegisterArgPair_def)
        with d have "ids g0 = ids g" by (simp add: fun_upd_idem)
        with e show ?thesis by simp
      qed
    qed
  qed
qed

text \<open>
  C4. The key of a registration is the result of \<open>GetProperKeyName\<close>: the cached value
  when the top of the name stack is \<open>Data\<close>, the name below it is \<open>EventData\<close> and the
  cached value is not empty, and the top of the name stack in every other case (none
  when the stack is empty; an argument pair is then registered under the empty string).
  A \<open>ValueText\<close> that succeeds leaves the templates as they were or appends one fixed pair
  with that key to the current template; a substitution that succeeds leaves them as
  they were or adds one argument pair with that key.
\<close>

theorem registration_key:
  "GetProperKeyName c g =
     (if GetName (nameStack g) = Some (lit ''Data'')
         \<and> GetUpperName (nameStack g) = Some (lit ''EventData'') \<and> cachedValue c \<noteq> []
      then Some (cachedValue c) else GetName (nameStack g))
   \<and> (ParseValueText c g = (True, c1, g1) \<longrightarrow>
        ids g1 = ids g \<or>
        (\<exists>p d k v. currentTemplatePtr c = Some p \<and> ids g p = Some d
            \<and> GetProperKeyName c g = Some k
            \<and> ids g1 = (ids g)(p \<mapsto> d\<lparr> fixed := fixed d @ [(k, v)] \<rparr>)))
   \<and> (ParseOptionalSubstitution c g = (True, c2, g2) \<longrightarrow>
        ids g2 = ids g \<or>
        (\<exists>p d i ty. currentTemplatePtr c = Some p \<and> ids g p = Some d \<and> args d i = None
            \<and> ids g2 = (ids g)(p \<mapsto> d\<lparr> args := (args d)(i \<mapsto>
                 ((case GetProperKeyName c g of Some k \<Rightarrow> k | None \<Rightarrow> []), ty)) \<rparr>)))"
  using GetProperKeyName_eq [of c g] ParseValueText_registration [of c g c1 g1]
        ParseOptionalSubstitution_registration [of c g c2 g2]
  by blast

lemmas ex_defs = ex_stack_def ex_globals_def ex_value_ctx_def ex_subst_ctx_def

lemma ex_stack_eval:
  "GetName ex_stack = Some (lit ''Data'') \<and> GetUpperName ex_stack = Some (lit ''EventData'')"
  by (simp add: ex_stack_def PushName_def NameStack_new_def GetName_def GetUpperName_def
        MAX_NAME_STACK_DEPTH_def INVALID_STACK_DEPTH_def replicate_numeral_Cons lit_def)

lemma ex_key: "GetProperKeyName ex_value_ctx ex_globals = Some (lit ''X'')"
  using ex_stack_eval
  by (simp add: GetProperKeyName_def ex_globals_def ex_value_ctx_def lit_def)

lemma ex_value_eval:
  "fst (ParseValueText ex_value_ctx ex_globals)
   \<and> ids (snd (snd (ParseValueText ex_value_ctx ex_globals)))
       = [1 \<mapsto> TemplateDescription_new\<lparr> fixed := [(lit ''X'', [0x76])] \<rparr>]"
  using ex_stack_eval ex_key
  by (simp add: ParseValueText_def read_eqs ex_value_ctx_def ex_globals_def PreContext_def
        ReadPrefixedUnicodeString_def ReadPrefixedUnicodeString_loop.simps UTF16ToUTF8_def
        size_t_sub_def SkipBytes_def replicate_numeral_Cons list_update_numeral_Cons c_str_def
        GetProperKeyName_def update_template_def RegisterFixedPair_def SetState_def
        TemplateDescription_new_def lit_def)

lemma ex_subst_eval:
  "fst (ParseOptionalSubstitution ex_subst_ctx ex_globals)
   \<and> ids (snd (snd (ParseOptionalSubstitution ex_subst_ctx ex_globals)))
       = [1 \<mapsto> TemplateDescription_new\<lparr> args := [0 \<mapsto> (lit ''X'', 8)] \<rparr>]"
  using ex_stack_eval
  by (simp add: ParseOptionalSubstitution_def read_eqs ex_subst_ctx_def ex_globals_def PreContext_def
        GetProperKeyName_def update_template_def RegisterArgPair_def SetState_def
        TemplateDescription_new_def lit_def)

theorem registration_key_witness:
  "GetProperKeyName ex_value_ctx ex_globals = Some (lit ''X'')
   \<and> fst (ParseValueText ex_value_ctx ex_globals)
   \<and> ids (snd (snd (ParseValueText ex_value_ctx ex_globals)))
       = [1 \<mapsto> TemplateDescription_new\<lparr> fixed := [(lit ''X'', [0x76])] \<rparr>]
   \<and> fst (ParseOptionalSubstitution ex_subst_ctx ex_globals)
   \<and> ids (snd (snd (ParseOptionalSubstitution ex_subst_ctx ex_globals)))
       = [1 \<mapsto> TemplateDescription_new\<lparr> args := [0 \<mapsto> (lit ''X'', 8)] \<rparr>]"
proof -
  have v: "ParseValueText ex_value_ctx ex_globals
      = (True, fst (snd (ParseValueText ex_value_ctx ex_globals)),
         snd (snd (ParseValueText ex_value_ctx ex_globals)))"
    using ex_value_eval by (cases "ParseValueText ex_value_ctx ex_globals") simp
  have s: "ParseOptionalSubstitution ex_subst_ctx ex_globals
      = (True, fst (snd (ParseOptionalSubstitution ex_subst_ctx ex_globals)),
         snd (snd (ParseOptionalSubstitution ex_subst_ctx ex_globals)))"
    using ex_subst_eval by (cases "ParseOptionalSubstitution ex_subst_ctx ex_globals") simp
  note a = registration_key [of ex_value_ctx ex_globals _ _ _ _, THEN conjunct2, THEN conjunct1,
      rule_format, OF v]
  note b = registration_key [of ex_subst_ctx ex_globals _ _ _ _, THEN conjunct2, THEN conjunct2,
      rule_format, OF s]
  from a b ex_key ex_value_eval ex_subst_eval show ?thesis by simp
qed

section \<open>Properties of the argument renderer\<close>

declare Sid_loop.simps [simp del]
declare StringArray_loop.simps [simp del]
















section \<open>Properties of the child window\<close>

text \<open>
  The parts of C8 that hold: the buffer of the child starts at the offset of the parent,
  its length is the requested length clamped to what remains in the parent, its
  offset from the chunk start is the sum of the parent's, and it starts at offset 0
  with an empty cached value. The chunk context of the child is the parent itself.
\<close>

lemma InheritWithOffset_window:
  "data (InheritWithOffset self other wantedLen) = drop (offset other) (data other)
   \<and> dataLen (InheritWithOffset self other wantedLen) = min wantedLen (dataLen other - offset other)
   \<and> offsetFromChunkStart (InheritWithOffset self other wantedLen)
        = offset other + offsetFromChunkStart other
   \<and> offset (InheritWithOffset self other wantedLen) = 0
   \<and> cachedValue (InheritWithOffset self other wantedLen) = []
   \<and> chunkContext (InheritWithOffset self other wantedLen) = window_of other"
  by (auto simp: InheritWithOffset_def)

text \<open>
  C8 at a parent that is itself a child window: the chunk context of the child is the
  window of the parent, not the chunk context of the parent, and a name referenced by
  the chunk offset 0 is read at the start of the parent's buffer (\<open>B\<close>); with the
  chunk context of the parent it is the name at the chunk offset 0 (\<open>A\<close>).
\<close>

theorem InheritWithOffset_chunkContext_nested:
  "chunkContext ex_child = window_of ex_parent
   \<and> chunkContext ex_child \<noteq> chunkContext ex_parent
   \<and> offsetFromChunkStart ex_child = 24
   \<and> fst (ReadName ex_child 256)
   \<and> c_str (fst (snd (ReadName ex_child 256))) = [0x42]
   \<and> c_str (fst (snd (ReadName (ex_child\<lparr> chunkContext := chunkContext ex_parent \<rparr>) 256))) = [0x41]"
  by (simp add: ex_child_def ex_parent_def ex_top_def ex_name_chunk_def PreContext_def
        InheritWithOffset_def window_of_def ReadName_def read_eqs
        ReadPrefixedUnicodeString_def ReadPrefixedUnicodeString_loop.simps UTF16ToUTF8_def
        size_t_sub_def SkipBytes_def replicate_numeral_Cons list_update_numeral_Cons c_str_def)

end
